theory Spec2Isabelle
  imports Main "HOL-Library.Word"
begin

unbundle bit_operations_syntax

section \<open>Machine types of the AVR target\<close>

text \<open>
  The sketch is built for an ATmega328 board (the Nano of the comments in
  \<^verbatim>\<open>fast_mpu6050.h\<close>): \<^verbatim>\<open>uint8_t\<close> and \<^verbatim>\<open>byte\<close> are 8 bits,
  \<^verbatim>\<open>int\<close>, \<^verbatim>\<open>int16_t\<close> and \<^verbatim>\<open>uint16_t\<close> are 16 bits, \<^verbatim>\<open>uint32_t\<close> and
  \<^verbatim>\<open>unsigned long\<close> are 32 bits. Signed values are words read with \<^const>\<open>sint\<close>.
\<close>

type_synonym u8 = "8 word"
type_synonym u16 = "16 word"
type_synonym i16 = "16 word"
type_synonym u32 = "32 word"

section \<open>data.h\<close>

record Data =
  micros :: u32
  analog :: u16
  btn_0 :: u8
  btn_1 :: u8
  lin_acc_x :: i16
  lin_acc_y :: i16
  lin_acc_z :: i16
  rot_vel_x :: i16
  rot_vel_y :: i16
  rot_vel_z :: i16

section \<open>The serial transport\<close>

text \<open>
  \<^verbatim>\<open>Serial\<close> belongs to the Arduino core, not to the sketch. Its state here is the
  sequence of bytes handed to the transport so far, oldest first; every call appends.
  \<^verbatim>\<open>Serial.write(b)\<close> sends the single byte \<open>b\<close>, \<^verbatim>\<open>Serial.write(str)\<close> the characters
  of a C string, \<^verbatim>\<open>Serial.write(buf, n)\<close> the \<open>n\<close> bytes of a buffer.
\<close>

type_synonym serial = "u8 list"

definition Serial_write :: "u8 \<Rightarrow> serial \<Rightarrow> serial" where
  "Serial_write b s = s @ [b]"

definition cstr :: "string \<Rightarrow> u8 list" where
  "cstr str = map of_char str"

definition Serial_write_str :: "string \<Rightarrow> serial \<Rightarrow> serial" where
  "Serial_write_str str s = s @ cstr str"

definition Serial_write_buf :: "u8 list \<Rightarrow> nat \<Rightarrow> serial \<Rightarrow> serial" where
  "Serial_write_buf buf n s = s @ take n buf"

text \<open>
  \<^verbatim>\<open>Serial.print(t)\<close> is overloaded on the type of \<open>t\<close>. The overload set is a
  parameter \<open>render\<close>: the bytes of the text that \<^verbatim>\<open>Serial.print\<close> writes for an
  argument. Arguments of different C++ types are the values of one (sum) type \<open>'a\<close>.
\<close>

definition Serial_print :: "('a \<Rightarrow> u8 list) \<Rightarrow> 'a \<Rightarrow> serial \<Rightarrow> serial" where
  "Serial_print render t s = s @ render t"

section \<open>send.h\<close>

definition BYTE_MESSAGE :: u8 where "BYTE_MESSAGE = 0"
definition BYTE_DATA_START :: u8 where "BYTE_DATA_START = 1"
definition BYTE_DATA_ELEMENT :: u8 where "BYTE_DATA_ELEMENT = 2"
definition BYTE_DATA_END :: u8 where "BYTE_DATA_END = 3"
definition BYTE_HEARTBEAT :: u8 where "BYTE_HEARTBEAT = 250"
definition BYTE_ERROR :: u8 where "BYTE_ERROR = 255"

text \<open>
  The two \<^verbatim>\<open>_VSend\<close> templates: one argument is printed; a first argument followed
  by a non-empty pack is printed and the pack is sent after it. A call with no argument
  matches neither template, so an argument list is a first argument and the rest.
\<close>

fun VSend :: "('a \<Rightarrow> u8 list) \<Rightarrow> 'a \<Rightarrow> 'a list \<Rightarrow> serial \<Rightarrow> serial" where
  "VSend render t [] s = Serial_print render t s"
| "VSend render t (r # rest) s = VSend render r rest (VSend render t [] s)"

definition Send :: "('a \<Rightarrow> u8 list) \<Rightarrow> 'a \<Rightarrow> 'a list \<Rightarrow> serial \<Rightarrow> serial" where
  "Send render t rest s =
     Serial_write 0 (VSend render t rest (Serial_write BYTE_MESSAGE s))"

definition SendLine :: "('a \<Rightarrow> u8 list) \<Rightarrow> 'a \<Rightarrow> 'a list \<Rightarrow> serial \<Rightarrow> serial" where
  "SendLine render t rest s =
     Serial_write 0
       (Serial_write_str [CHR 0x0A]
          (VSend render t rest (Serial_write BYTE_MESSAGE s)))"

definition SendDataStart :: "serial \<Rightarrow> serial" where
  "SendDataStart s = Serial_write BYTE_DATA_START s"

definition SendDataEnd :: "serial \<Rightarrow> serial" where
  "SendDataEnd s = Serial_write BYTE_DATA_END s"

definition SendHeartbeat :: "serial \<Rightarrow> serial" where
  "SendHeartbeat s = Serial_write BYTE_HEARTBEAT s"

text \<open>
  \<^verbatim>\<open>Serial.print(error_code, HEX)\<close> resolves to \<^verbatim>\<open>Print::print(unsigned char, int)\<close>
  of the Arduino core, which widens the byte to \<^verbatim>\<open>unsigned long\<close> and, for a base
  other than 0, calls \<^verbatim>\<open>Print::printNumber\<close>. That routine sets a base below 2 to 10
  and then fills a buffer from its end in a do-while loop:
  \<^verbatim>\<open>do { char c = n % base; n /= base; *--str = c < 10 ? c + '0' : c + 'A' - 10; } while (n);\<close>
  The loop has no bound of its own, so it is a partial function.
\<close>

definition HEX :: u16 where "HEX = 16"

definition digit_char :: "u8 \<Rightarrow> u8" where
  "digit_char c = (if c <s 10 then c + 48 else c + 65 - 10)"

partial_function (option) printNumber_loop :: "u32 \<Rightarrow> u8 \<Rightarrow> u8 list \<Rightarrow> u8 list option" where
  "printNumber_loop n base str =
     (let c = (ucast (n mod ucast base) :: u8);
          n' = n div ucast base;
          str' = digit_char c # str
      in if n' \<noteq> 0 then printNumber_loop n' base str' else Some str')"

definition printNumber :: "u32 \<Rightarrow> u8 \<Rightarrow> u8 list option" where
  "printNumber n base = printNumber_loop n (if base < 2 then 10 else base) []"

definition Serial_print_uchar :: "u8 \<Rightarrow> u16 \<Rightarrow> serial \<Rightarrow> serial option" where
  "Serial_print_uchar b base s =
     (if base = 0 then Some (Serial_write b s)
      else case printNumber (ucast b) (ucast base) of
             None \<Rightarrow> None
           | Some str \<Rightarrow> Some (Serial_write_buf str (length str) s))"

definition SendErrorCode :: "u8 \<Rightarrow> serial \<Rightarrow> serial option" where
  "SendErrorCode error_code s =
     (case Serial_print_uchar error_code HEX
             (Serial_print cstr ''  Error: 0x'' (Serial_write BYTE_MESSAGE s)) of
        None \<Rightarrow> None
      | Some s' \<Rightarrow> Some (Serial_write 0 (Serial_write 0x0A s')))"

text \<open>
  \<^verbatim>\<open>SendData\<close> writes the object representation of the record: \<^verbatim>\<open>sizeof(struct Data)\<close>
  bytes starting at its address. avr-gcc stores multi-byte integers least significant
  byte first and aligns every member to one byte, so the members lie in declaration order
  without padding.
\<close>

definition le16 :: "16 word \<Rightarrow> u8 list" where
  "le16 w = [ucast w, ucast (drop_bit 8 w)]"

definition le32 :: "32 word \<Rightarrow> u8 list" where
  "le32 w = [ucast w, ucast (drop_bit 8 w), ucast (drop_bit 16 w), ucast (drop_bit 24 w)]"

definition Data_object :: "Data \<Rightarrow> u8 list" where
  "Data_object dat =
     le32 (micros dat) @ le16 (analog dat) @ [btn_0 dat] @ [btn_1 dat] @
     le16 (lin_acc_x dat) @ le16 (lin_acc_y dat) @ le16 (lin_acc_z dat) @
     le16 (rot_vel_x dat) @ le16 (rot_vel_y dat) @ le16 (rot_vel_z dat)"

definition sizeof_Data :: nat where
  "sizeof_Data = 4 + 2 + 1 + 1 + 3 * 2 + 3 * 2"

definition SendData :: "Data \<Rightarrow> serial \<Rightarrow> serial" where
  "SendData dat s =
     Serial_write_buf (Data_object dat) sizeof_Data (Serial_write BYTE_DATA_ELEMENT s)"

text \<open>
  The \<^verbatim>\<open>ERROR\<close> macro ends in \<^verbatim>\<open>while (1) ;\<close>. A run is observed with fuel, one unit
  per test of a loop condition: \<open>Done\<close> when control has left the statement, \<open>Busy\<close> when
  the fuel is used up inside it; both carry the bytes written so far. Statements in
  sequence run the second only after the first is \<open>Done\<close>.
\<close>

datatype run = Done serial | Busy serial

fun while_1 :: "nat \<Rightarrow> serial \<Rightarrow> run" where
  "while_1 0 s = Busy s"
| "while_1 (Suc fuel) s = (if (1 :: i16) \<noteq> 0 then while_1 fuel s else Done s)"

definition ERROR :: "nat \<Rightarrow> serial \<Rightarrow> run" where
  "ERROR fuel s =
     while_1 fuel (Serial_write BYTE_ERROR (SendLine cstr ''---ERROR---'' [] s))"

fun and_then :: "run \<Rightarrow> (serial \<Rightarrow> run) \<Rightarrow> run" where
  "and_then (Done s) rest = rest s"
| "and_then (Busy s) rest = Busy s"

text \<open>The bytes a call adds to a transport that already holds \<open>s\<close>.\<close>

definition written :: "serial \<Rightarrow> serial \<Rightarrow> u8 list" where
  "written s s' = drop (length s) s'"

text \<open>
  Modelled from the spec: the receiver, which is not among the sources, puts the bytes of
  a field together again in "the same fixed layout", least significant byte first.
\<close>

definition from_le16 :: "u8 \<Rightarrow> u8 \<Rightarrow> 16 word" where
  "from_le16 b0 b1 = ucast b0 OR push_bit 8 (ucast b1)"

definition from_le32 :: "u8 \<Rightarrow> u8 \<Rightarrow> u8 \<Rightarrow> u8 \<Rightarrow> 32 word" where
  "from_le32 b0 b1 b2 b3 =
     ucast b0 OR push_bit 8 (ucast b1) OR push_bit 16 (ucast b2) OR push_bit 24 (ucast b3)"

text \<open>
  Modelled from the spec: the receiver's reader of a DataElement frame, which is not
  among the sources. It checks the tag byte 2 and reads the 20 bytes of the payload as
  the fields in declaration order; a frame of any other length or tag is not read.
\<close>

fun read_DataElement :: "u8 list \<Rightarrow> Data option" where
  "read_DataElement [tag, t0, t1, t2, t3, a0, a1, p, q,
                     x0, x1, y0, y1, z0, z1, u0, u1, v0, v1, w0, w1] =
     (if tag = 2 then
        Some \<lparr>micros = from_le32 t0 t1 t2 t3, analog = from_le16 a0 a1,
              btn_0 = p, btn_1 = q,
              lin_acc_x = from_le16 x0 x1, lin_acc_y = from_le16 y0 y1,
              lin_acc_z = from_le16 z0 z1,
              rot_vel_x = from_le16 u0 u1, rot_vel_y = from_le16 v0 v1,
              rot_vel_z = from_le16 w0 w1\<rparr>
      else None)"
| "read_DataElement _ = None"

section \<open>The two-wire bus\<close>

text \<open>
  \<^verbatim>\<open>Wire\<close> and \<^verbatim>\<open>delay\<close> belong to the Arduino core as well. The bus state records the
  calls made, in order, the receive buffer that \<^verbatim>\<open>Wire.read\<close> consumes, and the number
  of read requests issued. The sensor is a parameter: \<open>dev j\<close> is the bytes it returns
  to the \<open>j\<close>-th read request (\<open>j = 1, 2, ...\<close>). \<^verbatim>\<open>Wire.requestFrom\<close> replaces the
  receive buffer by at most the requested number of these bytes (and at most the 32 the
  library's buffer holds); \<^verbatim>\<open>Wire.read\<close> returns the next byte of the buffer as an
  \<^verbatim>\<open>int\<close>, or -1 when the buffer is empty.
\<close>

datatype call =
    Begin u8
  | SetClock u32
  | BeginTransmission u8
  | Write u8
  | EndTransmission bool
  | RequestFrom u8 u8
  | Read
  | Delay u32

record bus =
  calls :: "call list"
  rxBuffer :: "u8 list"
  requests :: nat

type_synonym device = "nat \<Rightarrow> u8 list"

definition issue :: "call \<Rightarrow> bus \<Rightarrow> bus" where
  "issue c w = w\<lparr>calls := calls w @ [c]\<rparr>"

definition Wire_begin :: "u8 \<Rightarrow> bus \<Rightarrow> bus" where
  "Wire_begin address w = issue (Begin address) w"

definition Wire_setClock :: "u32 \<Rightarrow> bus \<Rightarrow> bus" where
  "Wire_setClock clock w = issue (SetClock clock) w"

definition Wire_beginTransmission :: "u8 \<Rightarrow> bus \<Rightarrow> bus" where
  "Wire_beginTransmission address w = issue (BeginTransmission address) w"

definition Wire_write :: "u8 \<Rightarrow> bus \<Rightarrow> bus" where
  "Wire_write b w = issue (Write b) w"

definition Wire_endTransmission :: "bool \<Rightarrow> bus \<Rightarrow> bus" where
  "Wire_endTransmission sendStop w = issue (EndTransmission sendStop) w"

definition Wire_requestFrom :: "device \<Rightarrow> u8 \<Rightarrow> u8 \<Rightarrow> bus \<Rightarrow> bus" where
  "Wire_requestFrom dev address quantity w =
     (issue (RequestFrom address quantity) w)
       \<lparr>rxBuffer := take (min (unat quantity) 32) (dev (Suc (requests w))),
        requests := Suc (requests w)\<rparr>"

definition Wire_read :: "bus \<Rightarrow> i16 \<times> bus" where
  "Wire_read w =
     (case rxBuffer w of
        [] \<Rightarrow> (- 1, issue Read w)
      | b # bs \<Rightarrow> (ucast b, (issue Read w)\<lparr>rxBuffer := bs\<rparr>))"

definition delay :: "u32 \<Rightarrow> bus \<Rightarrow> bus" where
  "delay ms w = issue (Delay ms) w"

section \<open>fast\_mpu6050.h\<close>

definition I2C_CLOCK_HZ :: u32 where "I2C_CLOCK_HZ = 1000000"
definition MPU6050_ADDR :: u8 where "MPU6050_ADDR = 0x68"
definition MPU6050_SIGNAL_PATH_RESET :: u8 where "MPU6050_SIGNAL_PATH_RESET = 0x68"
definition MPU6050_PWR_MGMT_1 :: u8 where "MPU6050_PWR_MGMT_1 = 0x6B"
definition MPU6050_DATA_OUT :: u8 where "MPU6050_DATA_OUT = 0x3B"

text \<open>
  The wait loop of \<^verbatim>\<open>SetupMPU6050\<close>, \<^verbatim>\<open>while (!has_reset) { ... }\<close>. Nothing bounds
  the number of its rounds, so it is a partial function: \<open>None\<close> is the loop that never
  ends.
\<close>

partial_function (option) wait_for_reset :: "device \<Rightarrow> bool \<Rightarrow> bus \<Rightarrow> bus option" where
  "wait_for_reset dev has_reset w =
     (if \<not> has_reset then
        (let w1 = Wire_write MPU6050_PWR_MGMT_1 w;
             w2 = Wire_endTransmission False w1;
             w3 = Wire_requestFrom dev MPU6050_ADDR 1 w2;
             (v, w4) = Wire_read w3
         in wait_for_reset dev (v AND 0x80 = 0) w4)
      else Some w)"

definition SetupMPU6050 :: "device \<Rightarrow> bus \<Rightarrow> bus option" where
  "SetupMPU6050 dev w =
     (let w = Wire_begin MPU6050_ADDR w;
          w = Wire_setClock I2C_CLOCK_HZ w;
          w = Wire_beginTransmission MPU6050_ADDR w;
          w = Wire_write MPU6050_PWR_MGMT_1 w;
          w = Wire_write 0x80 w;
          w = Wire_endTransmission False w
      in case wait_for_reset dev False w of
           None \<Rightarrow> None
         | Some w \<Rightarrow>
             (let w = delay 100 w;
                  w = Wire_beginTransmission MPU6050_ADDR w;
                  w = Wire_write MPU6050_SIGNAL_PATH_RESET w;
                  w = Wire_write 0x07 w;
                  w = Wire_endTransmission False w;
                  w = delay 100 w;
                  w = Wire_beginTransmission MPU6050_ADDR w;
                  w = Wire_write MPU6050_PWR_MGMT_1 w;
                  w = Wire_write 0x00 w;
                  w = Wire_endTransmission True w
              in Some w))"

text \<open>
  In \<^verbatim>\<open>(Wire.read() << 8) | Wire.read()\<close> the left operand is read first, as avr-gcc
  evaluates it and as the comments of the source say (high and low bytes). Both operands
  are 16-bit \<^verbatim>\<open>int\<close>s; the result is stored in an \<^verbatim>\<open>int16_t\<close>.
\<close>

definition read_pair :: "bus \<Rightarrow> i16 \<times> bus" where
  "read_pair w =
     (let (hi, w) = Wire_read w;
          (lo, w) = Wire_read w
      in (push_bit 8 hi OR lo, w))"

definition FillDataMPU6050 :: "device \<Rightarrow> Data \<Rightarrow> bus \<Rightarrow> Data \<times> bus" where
  "FillDataMPU6050 dev dat w =
     (let w = Wire_beginTransmission MPU6050_ADDR w;
          w = Wire_write MPU6050_DATA_OUT w;
          w = Wire_endTransmission False w;
          w = Wire_requestFrom dev MPU6050_ADDR 14 w;
          (v, w) = read_pair w; dat = dat\<lparr>lin_acc_x := v\<rparr>;
          (v, w) = read_pair w; dat = dat\<lparr>lin_acc_y := v\<rparr>;
          (v, w) = read_pair w; dat = dat\<lparr>lin_acc_z := v\<rparr>;
          (_, w) = Wire_read w; (_, w) = Wire_read w;
          (v, w) = read_pair w; dat = dat\<lparr>rot_vel_x := v\<rparr>;
          (v, w) = read_pair w; dat = dat\<lparr>rot_vel_y := v\<rparr>;
          (v, w) = read_pair w; dat = dat\<lparr>rot_vel_z := v\<rparr>
      in (dat, w))"

text \<open>
  The big-endian pairing of two bytes, as a number: 256 times the first byte plus the
  second, in 16 bits (read as signed by \<^const>\<open>sint\<close>).
\<close>

definition be16 :: "u8 \<Rightarrow> u8 \<Rightarrow> i16" where
  "be16 hi lo = word_of_nat (256 * unat hi + unat lo)"

text \<open>The bit that the wait loop tests, on the reply to the \<open>j\<close>-th read request:
  it reads as clear when a byte arrives and its bit 7 is 0.\<close>

definition reads_clear :: "device \<Rightarrow> nat \<Rightarrow> bool" where
  "reads_clear dev j = (case dev j of [] \<Rightarrow> False | b # _ \<Rightarrow> \<not> bit b 7)"

section \<open>Notions of the specification\<close>

text \<open>
  The uppercase hexadecimal digit of a value below 16, and the hexadecimal text of a
  byte without leading zero: one digit below 16, two digits from 16 on.
\<close>

definition hex_digit :: "nat \<Rightarrow> u8" where
  "hex_digit d = of_char (''0123456789ABCDEF'' ! d)"

definition hex_text :: "u8 \<Rightarrow> u8 list" where
  "hex_text b =
     (if b < 16 then [hex_digit (unat b)]
      else [hex_digit (unat b div 16), hex_digit (unat b mod 16)])"

text \<open>A DataElement frame: the tag byte 2 and the bytes of one record.\<close>

definition DataElement_frame :: "Data \<Rightarrow> u8 list" where
  "DataElement_frame dat = 2 # Data_object dat"

text \<open>The record of the round-trip example.\<close>

definition sample :: Data where
  "sample = \<lparr>micros = 123456, analog = 512, btn_0 = 1, btn_1 = 0,
             lin_acc_x = 100, lin_acc_y = - 200, lin_acc_z = 300,
             rot_vel_x = - 50, rot_vel_y = 0, rot_vel_z = 50\<rparr>"

text \<open>
  The calls of \<^verbatim>\<open>SetupMPU6050\<close> in three groups: the reset command, one poll of the
  power-management register, and the configuration that follows the wait loop.
\<close>

definition reset_calls :: "call list" where
  "reset_calls =
     [Begin 0x68, SetClock 1000000,
      BeginTransmission 0x68, Write 0x6B, Write 0x80, EndTransmission False]"

definition poll_calls :: "call list" where
  "poll_calls = [Write 0x6B, EndTransmission False, RequestFrom 0x68 1, Read]"

definition config_calls :: "call list" where
  "config_calls =
     [Delay 100, BeginTransmission 0x68, Write 0x68, Write 0x07, EndTransmission False,
      Delay 100, BeginTransmission 0x68, Write 0x6B, Write 0x00, EndTransmission True]"

text \<open>The calls of one \<^verbatim>\<open>FillDataMPU6050\<close>: one addressed request for 14 bytes, 14 reads.\<close>

definition burst_calls :: "call list" where
  "burst_calls =
     [BeginTransmission 0x68, Write 0x3B, EndTransmission False, RequestFrom 0x68 14]
     @ replicate 14 Read"

section \<open>Properties of the framing operations\<close>

subsection \<open>Bytes and words\<close>

lemma from_le16_le16: "from_le16 (ucast w) (ucast (drop_bit 8 w)) = w"
  unfolding from_le16_def
  by (rule bit_word_eqI) (auto simp add: bit_simps)

lemma from_le32_le32:
  "from_le32 (ucast w) (ucast (drop_bit 8 w)) (ucast (drop_bit 16 w)) (ucast (drop_bit 24 w)) = w"
proof (rule bit_word_eqI)
  fix n
  assume "n < LENGTH(32)"
  consider "n < 8" | "8 \<le> n \<and> n < 16" | "16 \<le> n \<and> n < 24" | "24 \<le> n"
    by linarith
  then show "bit (from_le32 (ucast w) (ucast (drop_bit 8 w)) (ucast (drop_bit 16 w))
                   (ucast (drop_bit 24 w))) n = bit w n"
    by cases (auto simp add: from_le32_def bit_simps dest: bit_imp_le_length)
qed

lemma shift_or_be16: "push_bit 8 (ucast hi :: 16 word) OR ucast lo = be16 hi lo"
proof -
  have disj: "push_bit 8 (ucast hi :: 16 word) AND ucast lo = 0"
    by (rule bit_word_eqI) (auto simp add: bit_simps dest: bit_imp_le_length)
  have "be16 hi lo = 256 * (ucast hi :: 16 word) + ucast lo"
    by (simp add: be16_def)
  also have "\<dots> = push_bit 8 (ucast hi :: 16 word) + ucast lo"
    by (simp add: push_bit_eq_mult)
  also have "\<dots> = push_bit 8 (ucast hi :: 16 word) OR ucast lo"
    using disj by (rule disjunctive_add_eq_or)
  finally show ?thesis by simp
qed

lemma reset_bit_test: "((ucast (b :: 8 word) :: 16 word) AND 0x80 = 0) = (\<not> bit b 7)"
proof -
  have "((ucast b :: 16 word) AND 2 ^ 7 = 0) = (\<not> bit (ucast b :: 16 word) 7)"
    by (rule and_exp_eq_0_iff_not_bit)
  then show ?thesis by (simp add: bit_simps)
qed


subsection \<open>The number printer and the frames\<close>


lemma unat_byte_bound: "unat (b :: 8 word) < 256"
  using unsigned_less [of b, where ?'a = nat] by simp

lemma unat_widen: "unat (ucast (b :: 8 word) :: 32 word) = unat b"
  using unat_byte_bound [of b]
  by (simp add: unsigned_ucast_eq take_bit_nat_eq_self)

lemma low_nibble_widen: "(ucast ((ucast (b :: 8 word) :: 32 word) mod 16) :: 8 word) = b mod 16"
  using unat_byte_bound [of b]
  by (simp add: word_unat_eq_iff unat_mod unat_widen unsigned_ucast_eq take_bit_eq_mod)

lemma high_nibble_widen: "(ucast ((ucast (b :: 8 word) :: 32 word) div 16 mod 16) :: 8 word) = b div 16"
  using unat_byte_bound [of b]
  by (simp add: word_unat_eq_iff unat_mod unat_div unat_widen unsigned_ucast_eq take_bit_eq_mod)

lemma byte_div_256: "(ucast (b :: 8 word) :: 32 word) div 16 div 16 = 0"
  using unat_byte_bound [of b]
  by (simp add: word_unat_eq_iff unat_div unat_widen)

lemma widen_div_16_eq_0: "((ucast (b :: 8 word) :: 32 word) div 16 = 0) = (b < 16)"
  using unat_byte_bound [of b]
  by (simp add: word_unat_eq_iff unat_div unat_widen word_less_nat_alt div_eq_0_iff)

lemma nibble_bounds: "(b :: 8 word) div 16 < 16" "b mod 16 < 16"
  using unat_byte_bound [of b]
  by (simp_all add: word_less_nat_alt unat_div unat_mod)

lemma unat_nibbles: "unat ((b :: 8 word) div 16) = unat b div 16" "unat (b mod 16) = unat b mod 16"
  by (simp_all add: unat_div unat_mod)

lemma mod_16_small: "b < 16 \<Longrightarrow> (b :: 8 word) mod 16 = b"
  by (simp add: word_unat_eq_iff unat_mod word_less_nat_alt)

lemma digits_upto: "\<forall>n \<in> set [0..<16]. digit_char (of_nat n) = hex_digit n"
  by code_simp

lemma digit_char_hex: "c < 16 \<Longrightarrow> digit_char c = hex_digit (unat c)"
proof -
  assume "c < 16"
  then have "unat c < 16" by (simp add: word_less_nat_alt)
  then have "unat c \<in> set [0..<16]" by simp
  with digits_upto have "digit_char (of_nat (unat c)) = hex_digit (unat c)" by blast
  then show ?thesis by simp
qed

lemma printNumber_byte: "printNumber (ucast (b :: 8 word)) 16 = Some (hex_text b)"
proof (cases "b < 16")
  case True
  then have "printNumber_loop (ucast b) 16 [] = Some [digit_char b]"
    by (subst printNumber_loop.simps) (simp add: low_nibble_widen widen_div_16_eq_0 mod_16_small)
  with True show ?thesis
    by (simp add: printNumber_def hex_text_def digit_char_hex)
next
  case False
  then have "printNumber_loop (ucast b) 16 [] =
      printNumber_loop (ucast b div 16) 16 [digit_char (b mod 16)]"
    by (subst printNumber_loop.simps) (simp add: low_nibble_widen widen_div_16_eq_0)
  also have "\<dots> = Some [digit_char (b div 16), digit_char (b mod 16)]"
    by (subst printNumber_loop.simps) (simp add: high_nibble_widen byte_div_256)
  finally show ?thesis
    using False by (simp add: printNumber_def hex_text_def digit_char_hex nibble_bounds unat_nibbles)
qed

lemma SendErrorCode_eq:
  "SendErrorCode b s = Some (s @ [0] @ cstr ''  Error: 0x'' @ hex_text b @ [10, 0])"
  by (simp add: SendErrorCode_def Serial_print_uchar_def HEX_def printNumber_byte
      Serial_print_def Serial_write_def Serial_write_buf_def BYTE_MESSAGE_def)

lemma length_Data_object: "length (Data_object dat) = 20"
  by (simp add: Data_object_def le16_def le32_def)

lemma SendData_eq: "SendData dat s = s @ DataElement_frame dat"
  by (simp add: SendData_def Serial_write_buf_def Serial_write_def sizeof_Data_def
      length_Data_object DataElement_frame_def BYTE_DATA_ELEMENT_def)

lemma fold_SendData: "fold SendData ds s = s @ concat (map DataElement_frame ds)"
  by (induction ds arbitrary: s) (simp_all add: SendData_eq)

lemma read_frame: "read_DataElement (DataElement_frame dat) = Some dat"
  by (simp add: DataElement_frame_def Data_object_def le16_def le32_def
      from_le16_le16 from_le32_le32)

lemma VSend_appends:
  "VSend render t rest s = s @ concat (map render (t # rest))"
  by (induction rest arbitrary: t s) (simp_all add: Serial_print_def)

lemma Send_eq: "Send render t rest s = s @ [0] @ concat (map render (t # rest)) @ [0]"
  by (simp add: Send_def Serial_write_def BYTE_MESSAGE_def VSend_appends)

lemma SendLine_eq:
  "SendLine render t rest s = s @ [0] @ concat (map render (t # rest)) @ [10, 0]"
  by (simp add: SendLine_def Serial_write_def Serial_write_str_def cstr_def
      BYTE_MESSAGE_def VSend_appends)

lemma sample_frame:
  "DataElement_frame sample =
     [2, 0x40, 0xE2, 0x01, 0x00, 0x00, 0x02, 1, 0, 0x64, 0x00, 0x38, 0xFF, 0x2C, 0x01,
      0xCE, 0xFF, 0x00, 0x00, 0x32, 0x00]"
  by code_simp

lemma length_DataElement_frame: "length (DataElement_frame dat) = 21"
  by (simp add: DataElement_frame_def length_Data_object)

lemma hd_DataElement_frame: "hd (DataElement_frame dat) = 2"
  by (simp add: DataElement_frame_def)

lemma length_frames: "length (concat (map DataElement_frame ds)) = 21 * length ds"
  by (induction ds) (simp_all add: length_DataElement_frame)

lemma frame_lengths: "map length (map DataElement_frame ds) = replicate (length ds) 21"
  by (induction ds) (simp_all add: length_DataElement_frame)

lemma frame_tags: "map hd (map DataElement_frame ds) = replicate (length ds) 2"
  by (induction ds) (simp_all add: hd_DataElement_frame)

lemma while_1_Busy: "while_1 fuel s = Busy s"
  by (induction fuel) simp_all

lemma ERROR_eq: "ERROR fuel s = Busy (s @ [0] @ cstr ''---ERROR---'' @ [10, 0] @ [255])"
  by (simp add: ERROR_def while_1_Busy SendLine_eq Serial_write_def BYTE_ERROR_def)

section \<open>Properties of the sensor interface\<close>

lemma Wire_read_Cons:
  "rxBuffer w = b # bs \<Longrightarrow>
   Wire_read w = (ucast b, w\<lparr>calls := calls w @ [Read], rxBuffer := bs\<rparr>)"
  by (simp add: Wire_read_def issue_def)

lemma read_pair_Cons:
  "rxBuffer w = hi # lo # bs \<Longrightarrow>
   read_pair w = (be16 hi lo, w\<lparr>calls := calls w @ [Read, Read], rxBuffer := bs\<rparr>)"
  by (simp add: read_pair_def Wire_read_Cons shift_or_be16)

lemma poll_body:
  "(let w1 = Wire_write MPU6050_PWR_MGMT_1 w;
        w2 = Wire_endTransmission False w1;
        w3 = Wire_requestFrom dev MPU6050_ADDR 1 w2;
        (v, w4) = Wire_read w3
    in f (v AND 0x80 = 0) w4) =
   f (reads_clear dev (Suc (requests w)))
     \<lparr>calls = calls w @ poll_calls, rxBuffer = [], requests = Suc (requests w)\<rparr>"
proof (cases "dev (Suc (requests w))")
  case Nil
  then show ?thesis
    by (cases w)
      (simp add: Wire_write_def Wire_endTransmission_def Wire_requestFrom_def issue_def
        Wire_read_def reads_clear_def poll_calls_def MPU6050_PWR_MGMT_1_def MPU6050_ADDR_def)
next
  case (Cons b bs)
  then show ?thesis
    by (cases w)
      (simp add: Wire_write_def Wire_endTransmission_def Wire_requestFrom_def issue_def
        Wire_read_def reads_clear_def poll_calls_def MPU6050_PWR_MGMT_1_def MPU6050_ADDR_def
        reset_bit_test)
qed

lemma poll_once:
  "wait_for_reset dev False w =
   wait_for_reset dev (reads_clear dev (Suc (requests w)))
     \<lparr>calls = calls w @ poll_calls, rxBuffer = [], requests = Suc (requests w)\<rparr>"
  by (subst wait_for_reset.simps) (simp only: poll_body not_False_eq_True if_True)

lemma wait_done: "wait_for_reset dev True w = Some w"
  by (subst wait_for_reset.simps) simp

lemma wait_returns:
  "reads_clear dev (requests w + Suc n) \<Longrightarrow>
   (\<And>j. 0 < j \<Longrightarrow> j < Suc n \<Longrightarrow> \<not> reads_clear dev (requests w + j)) \<Longrightarrow>
   wait_for_reset dev False w =
     Some \<lparr>calls = calls w @ concat (replicate (Suc n) poll_calls), rxBuffer = [],
           requests = requests w + Suc n\<rparr>"
proof (induction n arbitrary: w)
  case 0
  then show ?case by (simp add: poll_once wait_done)
next
  case (Suc n)
  let ?w = "\<lparr>calls = calls w @ poll_calls, rxBuffer = [], requests = Suc (requests w)\<rparr>"
  have first: "\<not> reads_clear dev (Suc (requests w))"
    using Suc.prems(2) [of 1] by simp
  have "wait_for_reset dev False ?w =
     Some \<lparr>calls = calls ?w @ concat (replicate (Suc n) poll_calls), rxBuffer = [],
           requests = requests ?w + Suc n\<rparr>"
  proof (rule Suc.IH)
    show "reads_clear dev (requests ?w + Suc n)" using Suc.prems(1) by simp
  next
    fix j assume "0 < j" "j < Suc n"
    then show "\<not> reads_clear dev (requests ?w + j)"
      using Suc.prems(2) [of "Suc j"] by simp
  qed
  with first show ?case by (simp add: poll_once)
qed

lemma wait_returns_only_if:
  assumes "wait_for_reset dev has_reset w = Some w'"
  shows "has_reset \<or> (\<exists>j>0. reads_clear dev (requests w + j))"
  using assms
proof (induction rule: wait_for_reset.raw_induct [rotated 1, consumes 1])
  case (1 wait dev has_reset w w')
  show ?case
  proof (cases has_reset)
    case True
    then show ?thesis by simp
  next
    case False
    let ?w = "\<lparr>calls = calls w @ poll_calls, rxBuffer = [], requests = Suc (requests w)\<rparr>"
    from 1(2) False
    have "wait dev (reads_clear dev (Suc (requests w))) ?w = Some w'"
      by (simp only: poll_body not_False_eq_True if_True)
    then have "reads_clear dev (Suc (requests w)) \<or>
        (\<exists>j>0. reads_clear dev (requests ?w + j))"
      by (rule 1(1))
    then show ?thesis
    proof
      assume "reads_clear dev (Suc (requests w))"
      then have "0 < (1::nat) \<and> reads_clear dev (requests w + 1)" by simp
      then show ?thesis by blast
    next
      assume "\<exists>j>0. reads_clear dev (requests ?w + j)"
      then obtain j where "reads_clear dev (requests w + Suc j)" by auto
      then have "0 < Suc j \<and> reads_clear dev (requests w + Suc j)" by simp
      then show ?thesis by blast
    qed
  qed
qed

lemma wait_never_returns:
  "(\<And>j. 0 < j \<Longrightarrow> \<not> reads_clear dev (requests w + j)) \<Longrightarrow>
   wait_for_reset dev False w = None"
  using wait_returns_only_if [of dev False w] by (cases "wait_for_reset dev False w") auto

lemma Setup_unfold:
  "SetupMPU6050 dev w =
     (case wait_for_reset dev False (w\<lparr>calls := calls w @ reset_calls\<rparr>) of
        None \<Rightarrow> None
      | Some w' \<Rightarrow> Some (w'\<lparr>calls := calls w' @ config_calls\<rparr>))"
  by (simp add: SetupMPU6050_def Wire_begin_def Wire_setClock_def Wire_beginTransmission_def
      Wire_write_def Wire_endTransmission_def delay_def issue_def reset_calls_def
      config_calls_def MPU6050_ADDR_def I2C_CLOCK_HZ_def MPU6050_PWR_MGMT_1_def
      MPU6050_SIGNAL_PATH_RESET_def split: option.split)

lemma burst_calls_list:
  "burst_calls =
     [BeginTransmission 0x68, Write 0x3B, EndTransmission False, RequestFrom 0x68 14,
      Read, Read, Read, Read, Read, Read, Read, Read, Read, Read, Read, Read, Read, Read]"
  by (simp add: burst_calls_def numeral_eq_Suc)

lemma request_burst:
  "length (dev (Suc (requests w))) = 14 \<Longrightarrow>
   Wire_requestFrom dev address 14 w =
     w\<lparr>calls := calls w @ [RequestFrom address 14], rxBuffer := dev (Suc (requests w)),
       requests := Suc (requests w)\<rparr>"
  by (simp add: Wire_requestFrom_def issue_def)

section \<open>The claims about the framing protocol\<close>

text \<open>
  C6. \<^verbatim>\<open>Send\<close> writes the tag byte 0, the renderings of its arguments in argument
  order, and one zero byte; \<^verbatim>\<open>SendLine\<close> writes the same with one line feed (byte 10)
  directly before the zero byte. Nothing else is written, and what was written before
  is kept.
\<close>

theorem Send_SendLine_frame:
  "Send render t rest s = s @ [0] @ concat (map render (t # rest)) @ [0] \<and>
   SendLine render t rest s = s @ [0] @ concat (map render (t # rest)) @ [10, 0]"
  by (simp add: Send_eq SendLine_eq)

text \<open>
  C2. With any amount of fuel, the \<^verbatim>\<open>ERROR\<close> macro has written the Message frame of
  \<^verbatim>\<open>"---ERROR---"\<close> with its line feed before the zero byte, then the byte 255, and is
  still inside its loop: control never leaves it. Whatever is to run after it, a second
  \<^verbatim>\<open>ERROR\<close> included, does not run, and the bytes written stay these.
\<close>

theorem ERROR_emits_and_halts:
  "ERROR fuel s = Busy (s @ [0] @ cstr ''---ERROR---'' @ [10, 0] @ [255]) \<and>
   and_then (ERROR fuel s) rest = Busy (s @ [0] @ cstr ''---ERROR---'' @ [10, 0] @ [255]) \<and>
   and_then (ERROR fuel s) (ERROR fuel') = Busy (s @ [0] @ cstr ''---ERROR---'' @ [10, 0] @ [255])"
  by (simp add: ERROR_eq)

text \<open>
  C4, as the code has it. For every byte \<open>b\<close>, \<^verbatim>\<open>SendErrorCode\<close> returns, and writes the
  tag byte 0, the text \<^verbatim>\<open>"  Error: 0x"\<close>, the uppercase hexadecimal digits of \<open>b\<close> without
  a leading zero (one digit below 16, two from 16 on), a line feed and the zero byte.
\<close>

theorem SendErrorCode_text:
  "SendErrorCode b s = Some (s @ [0] @ cstr ''  Error: 0x'' @ hex_text b @ [10, 0])"
  by (rule SendErrorCode_eq)

text \<open>
  C4, as the claim states it, fails at the byte \<^verbatim>\<open>0x0A\<close>: the text written is
  \<^verbatim>\<open>"  Error: 0xA"\<close> and a line feed, not \<^verbatim>\<open>"  Error: 0x0A"\<close>, with or without a line feed.
\<close>

theorem SendErrorCode_0A_counterexample:
  "SendErrorCode 0x0A [] = Some ([0] @ cstr ''  Error: 0xA'' @ [10, 0]) \<and>
   SendErrorCode 0x0A [] \<noteq> Some ([0] @ cstr ''  Error: 0x0A'' @ [10, 0]) \<and>
   SendErrorCode 0x0A [] \<noteq> Some ([0] @ cstr ''  Error: 0x0A'' @ [0])"
  by (simp add: SendErrorCode_eq hex_text_def hex_digit_def cstr_def)

text \<open>
  C5. The bytes that \<^verbatim>\<open>SendData\<close> writes for a record, read back as a DataElement frame
  with the same layout, give the record again, every field equal. This holds for every
  record; for the record of the example the frame is the 21 bytes listed.
\<close>

theorem SendData_round_trip:
  "read_DataElement (written s (SendData dat s)) = Some dat \<and>
   read_DataElement (written [] (SendData sample [])) = Some sample \<and>
   written [] (SendData sample []) =
     [2, 0x40, 0xE2, 0x01, 0x00, 0x00, 0x02, 1, 0, 0x64, 0x00, 0x38, 0xFF, 0x2C, 0x01,
      0xCE, 0xFF, 0x00, 0x00, 0x32, 0x00]"
  by (simp add: written_def SendData_eq read_frame sample_frame [symmetric])

text \<open>
  C7. One \<^verbatim>\<open>SendDataStart\<close>, then \<^verbatim>\<open>SendData\<close> on each of \<open>N\<close> records in turn, then one
  \<^verbatim>\<open>SendDataEnd\<close> write the byte 1, then \<open>N\<close> DataElement frames (each 21 bytes long and
  starting with the tag 2, in the order of the records), then the byte 3, and nothing
  else: \<open>21 N + 2\<close> bytes, none of them a count. \<open>N = 0\<close> gives the two bytes 1 and 3.
\<close>

theorem batch_stream:
  "SendDataEnd (fold SendData ds (SendDataStart s)) =
     s @ [1] @ concat (map DataElement_frame ds) @ [3] \<and>
   map length (map DataElement_frame ds) = replicate (length ds) 21 \<and>
   map hd (map DataElement_frame ds) = replicate (length ds) 2 \<and>
   length (written s (SendDataEnd (fold SendData ds (SendDataStart s)))) = 21 * length ds + 2"
  proof (intro conjI)
  show "SendDataEnd (fold SendData ds (SendDataStart s)) =
          s @ [1] @ concat (map DataElement_frame ds) @ [3]"
    by (simp add: fold_SendData SendDataEnd_def SendDataStart_def Serial_write_def
        BYTE_DATA_START_def BYTE_DATA_END_def)
  then show "length (written s (SendDataEnd (fold SendData ds (SendDataStart s)))) =
          21 * length ds + 2"
    by (simp add: written_def length_frames)
  show "map length (map DataElement_frame ds) = replicate (length ds) 21"
    by (rule frame_lengths)
  show "map hd (map DataElement_frame ds) = replicate (length ds) 2"
    by (rule frame_tags)
qed

text \<open>
  C9. For every record, \<^verbatim>\<open>SendData\<close> writes exactly 21 bytes: the tag byte 2 and the 20
  bytes of the record, which are the 4 bytes of the timestamp, the 2 of the analog
  value, the two buttons and the six 2-byte motion fields, in this order without padding.
\<close>

theorem SendData_frame_length:
  "written s (SendData dat s) = 2 # Data_object dat \<and>
   length (written s (SendData dat s)) = 21 \<and>
   length (Data_object dat) = 20 \<and> sizeof_Data = 20 \<and>
   Data_object dat =
     le32 (micros dat) @ le16 (analog dat) @ [btn_0 dat, btn_1 dat] @
     le16 (lin_acc_x dat) @ le16 (lin_acc_y dat) @ le16 (lin_acc_z dat) @
     le16 (rot_vel_x dat) @ le16 (rot_vel_y dat) @ le16 (rot_vel_z dat) \<and>
   length (le32 (micros dat)) = 4 \<and> length (le16 (analog dat)) = 2"
  by (simp add: written_def SendData_eq DataElement_frame_def length_Data_object sizeof_Data_def)
    (simp add: Data_object_def le16_def le32_def)

text \<open>
  C10. The bytes that a framing operation writes depend on its arguments only: two runs
  with the same arguments, on transports that have carried any two histories \<open>s1\<close> and
  \<open>s2\<close>, write the same bytes.
\<close>

theorem framing_deterministic:
  "written s1 (Send render t rest s1) = written s2 (Send render t rest s2) \<and>
   written s1 (SendLine render t rest s1) = written s2 (SendLine render t rest s2) \<and>
   map_option (written s1) (SendErrorCode b s1) = map_option (written s2) (SendErrorCode b s2) \<and>
   written s1 (SendData dat s1) = written s2 (SendData dat s2) \<and>
   written s1 (SendDataStart s1) = written s2 (SendDataStart s2) \<and>
   written s1 (SendDataEnd s1) = written s2 (SendDataEnd s2) \<and>
   written s1 (SendHeartbeat s1) = written s2 (SendHeartbeat s2)"
  by (simp add: written_def SendData_eq read_frame fold_SendData SendDataEnd_def SendDataStart_def SendHeartbeat_def Serial_write_def BYTE_DATA_START_def BYTE_DATA_END_def BYTE_HEARTBEAT_def Send_eq SendLine_eq SendErrorCode_eq length_Data_object sizeof_Data_def)

section \<open>The claims about the sensor interface\<close>

text \<open>
  C3. If the reset bit first reads as clear on the \<open>k\<close>-th poll (\<open>k \<ge> 1\<close>, counted from
  the call of \<^verbatim>\<open>SetupMPU6050\<close>), the function returns after exactly \<open>k\<close> polls: its calls
  are the reset command, \<open>k\<close> times the poll, and then the configuration writes. If the
  bit never reads as clear, the function does not return.
\<close>

theorem SetupMPU6050_polls:
  "(0 < k \<and> reads_clear dev (requests w + k) \<and>
    (\<forall>j. 0 < j \<and> j < k \<longrightarrow> \<not> reads_clear dev (requests w + j)) \<longrightarrow>
      SetupMPU6050 dev w =
        Some \<lparr>calls = calls w @ reset_calls @ concat (replicate k poll_calls) @ config_calls,
              rxBuffer = [], requests = requests w + k\<rparr>) \<and>
   ((\<forall>j. 0 < j \<longrightarrow> \<not> reads_clear dev (requests w + j)) \<longrightarrow>
      SetupMPU6050 dev w = None)"
proof (intro conjI impI)
  assume h: "0 < k \<and> reads_clear dev (requests w + k) \<and>
    (\<forall>j. 0 < j \<and> j < k \<longrightarrow> \<not> reads_clear dev (requests w + j))"
  then obtain n where k: "k = Suc n" by (cases k) auto
  let ?w = "w\<lparr>calls := calls w @ reset_calls\<rparr>"
  have "wait_for_reset dev False ?w =
     Some \<lparr>calls = calls ?w @ concat (replicate (Suc n) poll_calls), rxBuffer = [],
           requests = requests ?w + Suc n\<rparr>"
    using h k by (intro wait_returns) simp_all
  then show "SetupMPU6050 dev w =
        Some \<lparr>calls = calls w @ reset_calls @ concat (replicate k poll_calls) @ config_calls,
              rxBuffer = [], requests = requests w + k\<rparr>"
    by (simp add: Setup_unfold k)
next
  assume h: "\<forall>j. 0 < j \<longrightarrow> \<not> reads_clear dev (requests w + j)"
  have "wait_for_reset dev False (w\<lparr>calls := calls w @ reset_calls\<rparr>) = None"
    using h by (intro wait_never_returns) simp
  then show "SetupMPU6050 dev w = None"
    by (simp add: Setup_unfold)
qed

theorem SetupMPU6050_polls_witness:
  "SetupMPU6050 (\<lambda>j. if j < 3 then [0x80] else [0x00])
       \<lparr>calls = [], rxBuffer = [], requests = 0\<rparr> =
     Some \<lparr>calls = reset_calls @ concat (replicate 3 poll_calls) @ config_calls,
           rxBuffer = [], requests = 3\<rparr> \<and>
   SetupMPU6050 (\<lambda>j. [0x80]) \<lparr>calls = [], rxBuffer = [], requests = 0\<rparr> = None"
  using SetupMPU6050_polls [of 3 "\<lambda>j. if j < 3 then [0x80] else [0x00]"
      "\<lparr>calls = [], rxBuffer = [], requests = 0\<rparr>"]
    SetupMPU6050_polls [of 0 "\<lambda>j. [0x80]" "\<lparr>calls = [], rxBuffer = [], requests = 0\<rparr>"]
  by (simp add: reads_clear_def)

text \<open>
  C1. When the sensor answers the read request with 14 bytes, \<^verbatim>\<open>FillDataMPU6050\<close> makes
  one addressed request for 14 bytes at register \<^verbatim>\<open>0x3B\<close> and reads all 14 of them; the
  six motion fields receive the big-endian pairing of their two bytes, high byte first,
  in the order accel x, y, z, (temperature), gyro x, y, z; the temperature pair is read
  and goes nowhere.
\<close>

theorem FillDataMPU6050_decodes:
  "dev (Suc (requests w)) =
     [axh, axl, ayh, ayl, azh, azl, tmh, tml, gxh, gxl, gyh, gyl, gzh, gzl] \<Longrightarrow>
   FillDataMPU6050 dev dat w =
     (dat\<lparr>lin_acc_x := be16 axh axl, lin_acc_y := be16 ayh ayl, lin_acc_z := be16 azh azl,
          rot_vel_x := be16 gxh gxl, rot_vel_y := be16 gyh gyl, rot_vel_z := be16 gzh gzl\<rparr>,
      \<lparr>calls = calls w @ burst_calls, rxBuffer = [], requests = Suc (requests w)\<rparr>)"
  by (cases w)
    (simp add: FillDataMPU6050_def Wire_beginTransmission_def Wire_write_def
      Wire_endTransmission_def request_burst issue_def read_pair_Cons Wire_read_Cons
      burst_calls_list MPU6050_ADDR_def MPU6050_DATA_OUT_def)

theorem FillDataMPU6050_decodes_witness:
  "FillDataMPU6050 (\<lambda>j. [0x01, 0x02, 0xFF, 0x38, 0x80, 0x00, 0x12, 0x34, 0, 0, 0x7F, 0xFF, 0xFF, 0xFF])
       sample \<lparr>calls = [], rxBuffer = [], requests = 0\<rparr> =
     (sample\<lparr>lin_acc_x := 258, lin_acc_y := - 200, lin_acc_z := - 32768,
             rot_vel_x := 0, rot_vel_y := 32767, rot_vel_z := - 1\<rparr>,
      \<lparr>calls = burst_calls, rxBuffer = [], requests = 1\<rparr>)"
  using FillDataMPU6050_decodes [where
      dev = "\<lambda>j. [0x01, 0x02, 0xFF, 0x38, 0x80, 0x00, 0x12, 0x34, 0, 0, 0x7F, 0xFF, 0xFF, 0xFF]"
      and w = "\<lparr>calls = [], rxBuffer = [], requests = 0\<rparr>" and dat = sample
      and axh = 1 and axl = 2 and ayh = 255 and ayl = 56 and azh = 128 and azl = 0
      and tmh = 18 and tml = 52 and gxh = 0 and gxl = 0 and gyh = 127 and gyl = 255
      and gzh = 255 and gzl = 255]
  by (simp add: be16_def)

text \<open>
  C8. Whatever the sensor answers, \<^verbatim>\<open>FillDataMPU6050\<close> leaves the timestamp, the analog
  value and the two buttons of the record as they were.
\<close>

theorem FillDataMPU6050_frame:
  "micros (fst (FillDataMPU6050 dev dat w)) = micros dat \<and>
   analog (fst (FillDataMPU6050 dev dat w)) = analog dat \<and>
   btn_0 (fst (FillDataMPU6050 dev dat w)) = btn_0 dat \<and>
   btn_1 (fst (FillDataMPU6050 dev dat w)) = btn_1 dat"
  by (simp add: FillDataMPU6050_def Let_def case_prod_beta)

end
